theory Spec2Isabelle
  imports Main "HOL-Library.Word"
begin

section \<open>Data model of \<open>HTTPSession.h\<close>\<close>

text \<open>
  The theory embeds the class \<open>proxygen::HTTPSession\<close> as declared in
  \<open>proxygen/lib/http/session/HTTPSession.h\<close>. Members keep their names without the
  trailing underscore, which Isabelle does not allow in a name. The fixed-width counters
  are machine words: \<open>uint32_t\<close> and \<open>unsigned\<close> are \<open>32 word\<close>, \<open>uint64_t\<close>
  and \<open>size_t\<close> are \<open>64 word\<close>, so \<open>+\<close> and \<open>-\<close> wrap and \<open><\<close> is the
  unsigned comparison.
\<close>

type_synonym uint32 = "32 word"
type_synonym uint64 = "64 word"

text \<open>\<open>HTTPCodec::StreamID\<close>: the key type of \<open>transactions_\<close>.\<close>

type_synonym StreamID = uint32

text \<open>
  \<open>ConnectionCloseReason\<close> is an enumeration declared outside this header. The header
  names one enumerator, \<open>kMAX_REASON\<close>, the initial value of \<open>closeReason_\<close>; the other
  enumerators are told apart by their number.
\<close>

datatype ConnectionCloseReason = kMAX_REASON | Reason nat

datatype TransportDirection = DOWNSTREAM | UPSTREAM

text \<open>
  What the session does to its collaborators (the transport \<open>sock_\<close>, the
  \<open>InfoCallback\<close>, the transactions) is recorded in order in the member \<open>calls_\<close>
  of the model; it is not a member of the class. \<open>TxnAbort i\<close> is the abort of the
  transaction under the id \<open>i\<close>. \<open>TxnShutdownError i r w\<close> is the error that
  \<open>shutdownTransport(r, w)\<close> has for the transaction under \<open>i\<close>: it aborts the
  transaction unless its ingress is complete (when the reads are shut down, \<open>r\<close>) and
  its egress is complete (when the writes are, \<open>w\<close>). \<open>TxnGoawayError i\<close> is the
  error that a GOAWAY of the peer has for the transaction under \<open>i\<close>: it aborts the
  transaction if the transaction was initiated locally. Whether a half is complete and
  which side initiated the transaction is state of the \<open>HTTPTransaction\<close>, a class that
  is not among the sources.
\<close>

datatype call =
    OnDestroy
  | SockPauseReads
  | SockResumeReads
  | SockShutdownReads
  | SockShutdownWrites
  | SockReset
  | CodecGoaway
  | TxnPauseEgress StreamID
  | TxnResumeEgress StreamID
  | TxnAbort StreamID
  | TxnShutdownError StreamID bool bool
  | TxnGoawayError StreamID

text \<open>
  The class. \<open>transactions_\<close> is a \<open>std::map<StreamID, HTTPTransaction*>\<close>: an
  association list whose keys are distinct, in iteration order; the transaction objects
  are values of the parameter \<open>'txn\<close>. \<open>pendingWrites_\<close> keeps the length of each
  \<open>WriteSegment\<close>. \<open>infoCallback_\<close> is a pointer to an observer: the model keeps
  whether it is set (not \<open>nullptr\<close>). \<open>destroyed_\<close> says that the object has been
  deleted.
\<close>

record 'txn HTTPSession =
  transactions :: "(StreamID \<times> 'txn) list"
  liveTransactions :: uint32
  transactionSeqNo :: uint32
  pendingWrites :: "uint64 list"
  infoCallback :: bool
  closeReason :: ConnectionCloseReason
  maxConcurrentPushTransactions :: uint32
  pushedTxns :: uint32
  pendingWriteSize :: uint64
  maxConcurrentOutgoingStreamsConfig :: uint32
  maxConcurrentOutgoingStreamsRemote :: uint32
  maxConcurrentIncomingStreams :: uint32
  outgoingStreams :: uint32
  incomingStreams :: uint32
  pendingReadSize :: uint32
  numActiveWrites :: uint32
  bytesWritten :: uint64
  bytesScheduled :: uint64
  initialReceiveWindow :: uint64
  receiveStreamWindowSize :: uint64
  direction :: TransportDirection
  draining :: bool
  needsChromeWorkaround :: bool
  ingressUpgraded :: bool
  started :: bool
  readsPaused :: bool
  readsShutdown :: bool
  writesPaused :: bool
  writesShutdown :: bool
  writesDraining :: bool
  resetAfterDrainingWrites :: bool
  ingressError :: bool
  inLoopCallback :: bool
  calls :: "call list"
  destroyed :: bool

text \<open>
  The members without an in-class initializer (\<open>direction_\<close> and the bit-field of
  flags) get their first value from the constructor, whose body is not in the header:
  they are the argument of \<open>newSession\<close>. So is the constructor's last parameter,
  \<open>InfoCallback* infoCallback = nullptr\<close>, an ``optional callback to be informed of
  session lifecycle events''.
\<close>

record ctor_init =
  init_direction :: TransportDirection
  init_infoCallback :: bool
  init_draining :: bool
  init_needsChromeWorkaround :: bool
  init_ingressUpgraded :: bool
  init_started :: bool
  init_readsPaused :: bool
  init_readsShutdown :: bool
  init_writesPaused :: bool
  init_writesShutdown :: bool
  init_writesDraining :: bool
  init_resetAfterDrainingWrites :: bool
  init_ingressError :: bool
  init_inLoopCallback :: bool

text \<open>
  A new object: every member with an in-class initializer has that value, except
  \<open>infoCallback_\<close>, which is the constructor's parameter of that name.
\<close>

definition newSession :: "ctor_init \<Rightarrow> 'txn HTTPSession" where
  "newSession c =
     \<lparr> transactions = [],
       liveTransactions = 0,
       transactionSeqNo = 0,
       pendingWrites = [],
       infoCallback = init_infoCallback c,
       closeReason = kMAX_REASON,
       maxConcurrentPushTransactions = 100,
       pushedTxns = 0,
       pendingWriteSize = 0,
       maxConcurrentOutgoingStreamsConfig = 100,
       maxConcurrentOutgoingStreamsRemote = 100000,
       maxConcurrentIncomingStreams = 100,
       outgoingStreams = 0,
       incomingStreams = 0,
       pendingReadSize = 0,
       numActiveWrites = 0,
       bytesWritten = 0,
       bytesScheduled = 0,
       initialReceiveWindow = 65536,
       receiveStreamWindowSize = 65536,
       direction = init_direction c,
       draining = init_draining c,
       needsChromeWorkaround = init_needsChromeWorkaround c,
       ingressUpgraded = init_ingressUpgraded c,
       started = init_started c,
       readsPaused = init_readsPaused c,
       readsShutdown = init_readsShutdown c,
       writesPaused = init_writesPaused c,
       writesShutdown = init_writesShutdown c,
       writesDraining = init_writesDraining c,
       resetAfterDrainingWrites = init_resetAfterDrainingWrites c,
       ingressError = init_ingressError c,
       inLoopCallback = init_inLoopCallback c,
       calls = [],
       destroyed = False \<rparr>"

text \<open>
  The constructor arguments of a session none of whose flags is set, with no
  \<open>InfoCallback\<close>.
\<close>

definition plainInit :: "TransportDirection \<Rightarrow> ctor_init" where
  "plainInit d =
     \<lparr> init_direction = d, init_infoCallback = False,
       init_draining = False, init_needsChromeWorkaround = False,
       init_ingressUpgraded = False, init_started = False, init_readsPaused = False,
       init_readsShutdown = False, init_writesPaused = False, init_writesShutdown = False,
       init_writesDraining = False, init_resetAfterDrainingWrites = False,
       init_ingressError = False, init_inLoopCallback = False \<rparr>"

section \<open>Inline member functions of the header\<close>

definition hasActiveTransactions :: "'txn HTTPSession \<Rightarrow> bool" where
  "hasActiveTransactions s = (transactions s \<noteq> [])"

definition supportsMoreTransactions :: "'txn HTTPSession \<Rightarrow> bool" where
  "supportsMoreTransactions s =
     ((outgoingStreams s < maxConcurrentOutgoingStreamsConfig s) \<and>
      (outgoingStreams s < maxConcurrentOutgoingStreamsRemote s))"

definition getNumOutgoingStreams :: "'txn HTTPSession \<Rightarrow> uint32" where
  "getNumOutgoingStreams s = outgoingStreams s"

definition getMaxConcurrentOutgoingStreams :: "'txn HTTPSession \<Rightarrow> uint32" where
  "getMaxConcurrentOutgoingStreams s =
     min (maxConcurrentOutgoingStreamsConfig s) (maxConcurrentOutgoingStreamsRemote s)"

definition getMaxConcurrentPushTransactions :: "'txn HTTPSession \<Rightarrow> uint32" where
  "getMaxConcurrentPushTransactions s = maxConcurrentPushTransactions s"

definition getConnectionCloseReason :: "'txn HTTPSession \<Rightarrow> ConnectionCloseReason" where
  "getConnectionCloseReason s = closeReason s"

definition setCloseReason :: "ConnectionCloseReason \<Rightarrow> 'txn HTTPSession \<Rightarrow> 'txn HTTPSession" where
  "setCloseReason reason s =
     (if closeReason s = kMAX_REASON then s\<lparr>closeReason := reason\<rparr> else s)"

text \<open>A run of \<open>setCloseReason\<close> calls, first call first.\<close>

fun setCloseReasons :: "ConnectionCloseReason list \<Rightarrow> 'txn HTTPSession \<Rightarrow> 'txn HTTPSession" where
  "setCloseReasons [] s = s"
| "setCloseReasons (r # rs) s = setCloseReasons rs (setCloseReason r s)"

section \<open>Invoking a callback on all transactions\<close>

text \<open>
  Modelled from the spec: \<open>findTransaction\<close>, which is declared in the header and
  defined outside it. The header's comment: ``Get the HTTPTransaction for the given
  transaction ID, or nullptr if that transaction ID does not exist within this
  HTTPSession.'' \<open>nullptr\<close> is \<open>None\<close>.
\<close>

definition findTransaction :: "'txn HTTPSession \<Rightarrow> StreamID \<Rightarrow> 'txn option" where
  "findTransaction s streamID = map_of (transactions s) streamID"












section \<open>The session state machine\<close>

text \<open>
  The member functions of this section are declared in the header; their bodies are in
  \<open>HTTPSession.cpp\<close>, which is not among the sources. Each is written from what the
  specification (and, where it has one, the header's comment on the declaration) says
  the function does to the members of the session. Transactions are opaque: the state of
  their two halves and the frames written for them are not part of the model. The aborts
  and errors that the session has for them are recorded in \<open>calls_\<close>, and what their
  handlers do in response reaches the session as later events.
\<close>

text \<open>
  Modelled from the spec: \<open>setInfoCallback\<close>, declared in the header. The argument
  says whether the pointer passed is set.
\<close>

definition setInfoCallback :: "bool \<Rightarrow> 'txn HTTPSession \<Rightarrow> 'txn HTTPSession" where
  "setInfoCallback callback s = s\<lparr>infoCallback := callback\<rparr>"

text \<open>
  Modelled from the spec: the destruction of the session object. ``\<open>checkForShutdown\<close>:
  if both shutdown flags set and no active writes and no transactions, detach all
  pending WriteSegments and destroy self''; ``\<open>onDestroy\<close> is the final observable
  callback; no callback follows it.'' The \<open>InfoCallback\<close> is optional
  (\<open>infoCallback_{nullptr}\<close> in the header): without one, no \<open>onDestroy\<close> is
  delivered.
\<close>

definition destroy :: "'txn HTTPSession \<Rightarrow> 'txn HTTPSession" where
  "destroy s =
     s\<lparr>pendingWrites := [],
       calls := calls s @ (if infoCallback s then [OnDestroy] else []),
       destroyed := True\<rparr>"

text \<open>
  Modelled from the spec: \<open>checkForShutdown\<close>, declared in the header (``Check whether
  the socket is shut down in both directions; if it is, initiate the destruction of this
  HTTPSession''). The specification: ``if both shutdown flags set and no active writes
  and no transactions, detach all pending WriteSegments and destroy self.''
\<close>

definition checkForShutdown :: "'txn HTTPSession \<Rightarrow> 'txn HTTPSession" where
  "checkForShutdown s =
     (if readsShutdown s \<and> writesShutdown s \<and> numActiveWrites s = 0 \<and> transactions s = []
      then destroy s else s)"

text \<open>
  Modelled from the spec: \<open>pauseReads\<close>, declared in the header (``Stop reading from
  the transport until resumeReads() is called'').
\<close>

definition pauseReads :: "'txn HTTPSession \<Rightarrow> 'txn HTTPSession" where
  "pauseReads s = s\<lparr>readsPaused := True, calls := calls s @ [SockPauseReads]\<rparr>"

text \<open>
  Modelled from the spec: \<open>resumeReads\<close>, declared in the header (``Unpause reading
  from the transport''). The specification: ``\<open>resumeReads()\<close> re-enables transport
  reads.''
\<close>

definition resumeReads :: "'txn HTTPSession \<Rightarrow> 'txn HTTPSession" where
  "resumeReads s = s\<lparr>readsPaused := False, calls := calls s @ [SockResumeReads]\<rparr>"

text \<open>
  Modelled from the spec: \<open>shutdownTransport\<close>, declared in the header (``Start closing
  the socket. @param shutdownReads Whether to close the read side of the socket. All
  transactions which are not ingress complete will receive an error. @param
  shutdownWrites Whether to close the write side of the socket. All transactions which
  are not egress complete will receive an error''). The specification: ``abort affected
  transactions (those whose corresponding half is not complete), set the matching
  shutdown flags, tell the transport to half-close accordingly, then
  \<open>checkForShutdown\<close>.'' The writes in flight are given up when the write side is shut
  down: ``Session shutdown does not wait for in-flight writes except when
  \<open>resetAfterDrainingWrites_\<close> is set'', and ``if \<open>writesShutdown_\<close> then
  \<open>numActiveWrites_ = 0\<close>''. Their \<open>WriteSegment\<close>s leave the list, so that no
  completion of theirs reaches the session.
\<close>

definition shutdownTransport :: "bool \<Rightarrow> bool \<Rightarrow> 'txn HTTPSession \<Rightarrow> 'txn HTTPSession" where
  "shutdownTransport shutdownReads shutdownWrites s =
     checkForShutdown
       (s\<lparr>readsShutdown := readsShutdown s \<or> shutdownReads,
          writesShutdown := writesShutdown s \<or> shutdownWrites,
          pendingWrites := (if shutdownWrites then [] else pendingWrites s),
          numActiveWrites := (if shutdownWrites then 0 else numActiveWrites s),
          calls := calls s
            @ (if shutdownReads \<or> shutdownWrites
               then map (\<lambda>p. TxnShutdownError (fst p) shutdownReads shutdownWrites)
                      (transactions s)
               else [])
            @ (if shutdownReads then [SockShutdownReads] else [])
            @ (if shutdownWrites then [SockShutdownWrites] else [])\<rparr>)"

text \<open>
  Modelled from the spec: closing the transport with a reset, the step that
  \<open>shutdownTransportWithReset\<close> takes at once or after the writes in flight
  (``shut immediately with RST''; the header: ``Immediately close the socket in both
  directions, discarding any queued writes that haven't yet been transferred to the
  kernel, and send a RST to the client''; the specification: ``an immediate reset discards
  pending writes'').
\<close>

definition resetTransport :: "'txn HTTPSession \<Rightarrow> 'txn HTTPSession" where
  "resetTransport s =
     checkForShutdown
       (s\<lparr>readsShutdown := True, writesShutdown := True,
          pendingWrites := [], numActiveWrites := 0,
          calls := calls s @ [SockReset]\<rparr>)"

text \<open>
  Modelled from the spec: \<open>shutdownTransportWithReset\<close>, declared in the header. The
  specification: ``immediately abort all transactions with \<open>err\<close>, set
  \<open>resetAfterDrainingWrites_\<close> if writes are in flight else shut immediately with RST.''
\<close>

definition shutdownTransportWithReset :: "'txn HTTPSession \<Rightarrow> 'txn HTTPSession" where
  "shutdownTransportWithReset s =
     (let s1 = s\<lparr>calls := calls s @ map (\<lambda>p. TxnAbort (fst p)) (transactions s)\<rparr>
      in if numActiveWrites s1 \<noteq> 0 then s1\<lparr>resetAfterDrainingWrites := True\<rparr>
         else resetTransport s1)"

text \<open>
  Modelled from the spec: \<open>dropConnection\<close>, declared in the header: ``equivalent to
  reset-shutdown with a generic error.''
\<close>

definition dropConnection :: "'txn HTTPSession \<Rightarrow> 'txn HTTPSession" where
  "dropConnection s = shutdownTransportWithReset s"

text \<open>
  Modelled from the spec: \<open>drain\<close>, declared in the header. The specification: ``set
  \<open>draining_\<close>; send a GOAWAY \<dots>; refuse new outbound transactions; accept no new
  inbound; existing transactions complete.''
\<close>

definition drain :: "'txn HTTPSession \<Rightarrow> 'txn HTTPSession" where
  "drain s = s\<lparr>draining := True, calls := calls s @ [CodecGoaway]\<rparr>"

text \<open>
  Modelled from the spec: \<open>onGoaway\<close>, declared in the header with a
  \<open>uint64_t lastGoodStreamID\<close>. The specification: ``mark session as draining; abort
  all locally-initiated transactions with stream-id strictly greater than
  \<open>lastGoodStreamID\<close>.''
\<close>

definition onGoaway :: "uint64 \<Rightarrow> 'txn HTTPSession \<Rightarrow> 'txn HTTPSession" where
  "onGoaway lastGoodStreamID s =
     s\<lparr>draining := True,
       calls := calls s @
         map (\<lambda>p. TxnGoawayError (fst p))
           (filter (\<lambda>p. lastGoodStreamID < ucast (fst p)) (transactions s))\<rparr>"

text \<open>
  Modelled from the spec: \<open>closeWhenIdle\<close>, declared in the header. The specification:
  ``set \<open>writesDraining_\<close>; once the priority queue and transactions are empty, shut
  writes.'' The priority queue holds transactions, so it is empty when the table is.
\<close>

definition closeWhenIdle :: "'txn HTTPSession \<Rightarrow> 'txn HTTPSession" where
  "closeWhenIdle s =
     (let s1 = s\<lparr>writesDraining := True\<rparr>
      in if transactions s1 = [] then shutdownTransport False True s1 else s1)"

text \<open>
  Modelled from the spec: \<open>onSessionParseError\<close>, declared in the header. The
  specification: ``set \<open>ingressError_\<close>, abort all transactions, send a session-level
  GOAWAY/abort, and shut down reads.'' (The header's comment, ``Send a session layer abort
  and shutdown the transport for reads and writes'', includes the writes; the
  specification shuts only the reads at this point, and so does the model.)
\<close>

definition onSessionParseError :: "'txn HTTPSession \<Rightarrow> 'txn HTTPSession" where
  "onSessionParseError s =
     shutdownTransport True False
       (s\<lparr>ingressError := True,
          calls := calls s @ map (\<lambda>p. TxnAbort (fst p)) (transactions s) @ [CodecGoaway]\<rparr>)"

text \<open>
  Modelled from the spec: \<open>egressLimitExceeded\<close>, declared in the header (``Returns
  true iff egress should stop on this session''). The specification: ``At most
  \<open>kPendingWriteMax\<close> unwritten bytes may be queued on the transport.'' The value of
  the static member \<open>kPendingWriteMax\<close> is not in the header: it is an argument.
\<close>

definition egressLimitExceeded :: "uint64 \<Rightarrow> 'txn HTTPSession \<Rightarrow> bool" where
  "egressLimitExceeded kPendingWriteMax s = (kPendingWriteMax < pendingWriteSize s)"

text \<open>
  Modelled from the spec: \<open>updateWriteBufSize\<close>, declared in the header (``Update the
  size of the unwritten egress data and invoke callbacks if the size has crossed the
  buffering limit''). The specification: ``crossing the cap pauses egress for all
  transactions (\<open>writesPaused_ = true\<close>) and calls \<open>pauseEgress\<close> on each; falling
  back below it resumes them.'' The argument \<open>delta\<close> is an \<open>int64_t\<close>, added as a
  64-bit word.
\<close>

definition updateWriteBufSize :: "uint64 \<Rightarrow> uint64 \<Rightarrow> 'txn HTTPSession \<Rightarrow> 'txn HTTPSession" where
  "updateWriteBufSize kPendingWriteMax delta s =
     (let wasExceeded = egressLimitExceeded kPendingWriteMax s;
          s1 = s\<lparr>pendingWriteSize := pendingWriteSize s + delta\<rparr>
      in if egressLimitExceeded kPendingWriteMax s1 \<and> \<not> wasExceeded
         then s1\<lparr>writesPaused := True,
                 calls := calls s1 @ map (\<lambda>p. TxnPauseEgress (fst p)) (transactions s1)\<rparr>
         else if wasExceeded \<and> \<not> egressLimitExceeded kPendingWriteMax s1
         then s1\<lparr>writesPaused := False,
                 calls := calls s1 @ map (\<lambda>p. TxnResumeEgress (fst p)) (transactions s1)\<rparr>
         else s1)"

text \<open>
  Modelled from the spec: \<open>addTransaction\<close>, declared in the header (``Add a new
  transaction. @return true on success, or false if a transaction with the same ID
  already exists''). The id of the transaction is passed with it.
\<close>

definition addTransaction ::
  "StreamID \<Rightarrow> 'txn \<Rightarrow> 'txn HTTPSession \<Rightarrow> bool \<times> 'txn HTTPSession" where
  "addTransaction i txn s =
     (case findTransaction s i of
        Some _ \<Rightarrow> (False, s)
      | None \<Rightarrow> (True, s\<lparr>transactions := insort_key fst (i, txn) (transactions s)\<rparr>))"

text \<open>
  Modelled from the spec: the creation of a transaction, by an inbound message-begin or
  by an outbound request for a new transaction, both of which end in
  \<open>addTransaction\<close>. The specification: ``\<open>draining_\<close> \<open>\<Rightarrow>\<close> no new incoming
  transactions accepted and no new outbound allowed.''
\<close>

definition admitTransaction :: "StreamID \<Rightarrow> 'txn \<Rightarrow> 'txn HTTPSession \<Rightarrow> 'txn HTTPSession" where
  "admitTransaction i txn s = (if draining s then s else snd (addTransaction i txn s))"

text \<open>
  Modelled from the spec: \<open>detach\<close> of a transaction whose two halves are closed, with
  \<open>decrementTransactionCount\<close>; both are declared in the header. The specification:
  ``\<open>detach(txn)\<close> from the handler removes the handler reference; if both halves are
  closed, removes the transaction from the table and calls
  \<open>decrementTransactionCount\<close>. On decrement, if this was the last transaction and
  \<open>draining_\<close> and \<open>direction_ = upstream\<close>, shut down the transport.''
\<close>

definition detach :: "StreamID \<Rightarrow> 'txn HTTPSession \<Rightarrow> 'txn HTTPSession" where
  "detach i s =
     (case findTransaction s i of
        None \<Rightarrow> s
      | Some _ \<Rightarrow>
          (let s1 = s\<lparr>transactions := filter (\<lambda>p. fst p \<noteq> i) (transactions s)\<rparr>
           in if transactions s1 = [] \<and> draining s1 \<and> direction s1 = UPSTREAM
              then shutdownTransport True True s1
              else s1))"

text \<open>
  Modelled from the spec: the end of the loop callback \<open>runLoopCallback\<close>, declared in
  the header, for a buffer of \<open>len\<close> bytes: ``Submit the coalesced buffer as one
  \<open>WriteSegment\<close> \<dots> Increment \<open>numActiveWrites_\<close>.'' The bytes are then ``sent to the
  socket but not yet written to the network'' (the header on \<open>pendingWriteSize_\<close>) and
  scheduled (\<open>bytesScheduled_\<close>). Once the write side is shut down nothing is submitted
  (``\<open>writesShutdown_\<close> set; no further WriteSegments submitted'').
\<close>

definition submitWrite :: "uint64 \<Rightarrow> uint64 \<Rightarrow> 'txn HTTPSession \<Rightarrow> 'txn HTTPSession" where
  "submitWrite kPendingWriteMax len s =
     (if writesShutdown s then s
      else updateWriteBufSize kPendingWriteMax len
             (s\<lparr>pendingWrites := pendingWrites s @ [len],
                numActiveWrites := numActiveWrites s + 1,
                bytesScheduled := bytesScheduled s + len\<rparr>))"

text \<open>
  Modelled from the spec: \<open>onWriteCompleted\<close>, declared in the header (``Check whether
  to shut down the transport after a write completes''). The specification:
  ``\<open>onWriteCompleted\<close> (which may trigger shutdown if \<open>writesDraining_\<close> and no more
  work)'': no write in flight and no transaction. A reset that
  \<open>shutdownTransportWithReset\<close> put off with \<open>resetAfterDrainingWrites_\<close> is made
  when the last write in flight has completed.
\<close>

definition onWriteCompleted :: "'txn HTTPSession \<Rightarrow> 'txn HTTPSession" where
  "onWriteCompleted s =
     (if numActiveWrites s \<noteq> 0 then s
      else if resetAfterDrainingWrites s then resetTransport s
      else if writesDraining s \<and> transactions s = [] then shutdownTransport False True s
      else s)"

text \<open>
  Modelled from the spec: \<open>onWriteSuccess\<close>, declared in the header, as called by the
  oldest \<open>WriteSegment\<close>. The specification: ``pop the oldest WriteSegment, advance
  \<open>bytesWritten_\<close> by its length, \<dots> decrement \<open>pendingWriteSize_\<close>, possibly resume
  egress, and call \<open>onWriteCompleted\<close>.'' Without a segment in flight there is no
  completion to deliver.
\<close>

definition onWriteSuccess :: "uint64 \<Rightarrow> 'txn HTTPSession \<Rightarrow> 'txn HTTPSession" where
  "onWriteSuccess kPendingWriteMax s =
     (case pendingWrites s of
        [] \<Rightarrow> s
      | len # rest \<Rightarrow>
          onWriteCompleted
            (updateWriteBufSize kPendingWriteMax (- len)
               (s\<lparr>pendingWrites := rest,
                  bytesWritten := bytesWritten s + len,
                  numActiveWrites := numActiveWrites s - 1\<rparr>)))"

text \<open>
  Modelled from the spec: \<open>onWriteError\<close>, declared in the header, as called by the
  oldest \<open>WriteSegment\<close>. The specification: ``On \<open>writeError\<close>, transition to
  write-error: abort all transactions with a transport error, shut down writes, and
  proceed to destruction check.'' The segment leaves the list as on completion
  (``WriteSegments \<dots> self-remove on completion''), and \<open>numActiveWrites_\<close> counts the
  writes ``for which we haven't yet received completion or failure callbacks'' (header).
\<close>

definition onWriteError :: "'txn HTTPSession \<Rightarrow> 'txn HTTPSession" where
  "onWriteError s =
     (case pendingWrites s of
        [] \<Rightarrow> s
      | len # rest \<Rightarrow>
          shutdownTransport False True
            (s\<lparr>pendingWrites := rest, numActiveWrites := numActiveWrites s - 1,
               calls := calls s @ map (\<lambda>p. TxnAbort (fst p)) (transactions s)\<rparr>))"

text \<open>
  The calls that reach a session: from its owner, the transport, the codec and the
  transactions, and from its own loop callback, ingress path and egress path.
\<close>

datatype 'txn event =
    AddTransaction StreamID 'txn
  | Detach StreamID
  | Drain
  | Goaway uint64
  | CloseWhenIdle
  | ShutdownTransport bool bool
  | ShutdownTransportWithReset
  | DropConnection
  | SessionParseError
  | PauseReads
  | ResumeReads
  | UpdateWriteBufSize uint64
  | SubmitWrite uint64
  | WriteSuccess
  | WriteError
  | SetInfoCallback bool

text \<open>One call on a session that has not been deleted.\<close>

fun dispatch :: "uint64 \<Rightarrow> 'txn event \<Rightarrow> 'txn HTTPSession \<Rightarrow> 'txn HTTPSession" where
  "dispatch kmax (AddTransaction i txn) s = admitTransaction i txn s"
| "dispatch kmax (Detach i) s = detach i s"
| "dispatch kmax Drain s = drain s"
| "dispatch kmax (Goaway lastGoodStreamID) s = onGoaway lastGoodStreamID s"
| "dispatch kmax CloseWhenIdle s = closeWhenIdle s"
| "dispatch kmax (ShutdownTransport r w) s = shutdownTransport r w s"
| "dispatch kmax ShutdownTransportWithReset s = shutdownTransportWithReset s"
| "dispatch kmax DropConnection s = dropConnection s"
| "dispatch kmax SessionParseError s = onSessionParseError s"
| "dispatch kmax PauseReads s = pauseReads s"
| "dispatch kmax ResumeReads s = resumeReads s"
| "dispatch kmax (UpdateWriteBufSize delta) s = updateWriteBufSize kmax delta s"
| "dispatch kmax (SubmitWrite len) s = submitWrite kmax len s"
| "dispatch kmax WriteSuccess s = onWriteSuccess kmax s"
| "dispatch kmax WriteError s = onWriteError s"
| "dispatch kmax (SetInfoCallback callback) s = setInfoCallback callback s"

text \<open>
  Modelled from the spec: a deleted session receives no call (``\<open>onDestroy\<close> is the
  final session-level signal''; a \<open>WriteSegment\<close> is ``detached on session destruction
  to suppress further callbacks'').
\<close>

definition step :: "uint64 \<Rightarrow> 'txn event \<Rightarrow> 'txn HTTPSession \<Rightarrow> 'txn HTTPSession" where
  "step kmax e s = (if destroyed s then s else dispatch kmax e s)"

text \<open>A run of calls, first call first.\<close>

fun run :: "uint64 \<Rightarrow> 'txn event list \<Rightarrow> 'txn HTTPSession \<Rightarrow> 'txn HTTPSession" where
  "run kmax [] s = s"
| "run kmax (e # es) s = run kmax es (step kmax e s)"



section \<open>Stream limits\<close>

text \<open>
  Claim C4. \<open>supportsMoreTransactions()\<close> is true exactly when \<open>outgoingStreams_\<close> is
  strictly below both the configured and the remote limit, which is the same as being
  strictly below \<open>getMaxConcurrentOutgoingStreams()\<close>, the smaller of the two.
\<close>

theorem supportsMoreTransactions_iff:
  "(supportsMoreTransactions s \<longleftrightarrow>
      outgoingStreams s < maxConcurrentOutgoingStreamsConfig s \<and>
      outgoingStreams s < maxConcurrentOutgoingStreamsRemote s) \<and>
   (supportsMoreTransactions s \<longleftrightarrow>
      getNumOutgoingStreams s < getMaxConcurrentOutgoingStreams s) \<and>
   getMaxConcurrentOutgoingStreams s =
      min (maxConcurrentOutgoingStreamsConfig s) (maxConcurrentOutgoingStreamsRemote s)"
proof -
  have "outgoingStreams s < min (maxConcurrentOutgoingStreamsConfig s)
            (maxConcurrentOutgoingStreamsRemote s) \<longleftrightarrow>
        outgoingStreams s < maxConcurrentOutgoingStreamsConfig s \<and>
        outgoingStreams s < maxConcurrentOutgoingStreamsRemote s"
    by (rule min_less_iff_conj)
  then show ?thesis
    by (simp add: supportsMoreTransactions_def getNumOutgoingStreams_def
        getMaxConcurrentOutgoingStreams_def)
qed

section \<open>Defaults of a new session\<close>

text \<open>
  Claim C9. A newly constructed session, whatever the constructor arguments, reports 100
  from \<open>getMaxConcurrentPushTransactions()\<close> and has an initial receive window of 65536
  bytes.
\<close>

theorem newSession_defaults:
  "getMaxConcurrentPushTransactions (newSession c) = 100 \<and>
   initialReceiveWindow (newSession c) = 65536"
  by (simp add: getMaxConcurrentPushTransactions_def newSession_def)

section \<open>The close reason\<close>

lemma setCloseReasons_set:
  "closeReason s \<noteq> kMAX_REASON \<Longrightarrow> setCloseReasons rs s = s"
  by (induction rs arbitrary: s) (simp_all add: setCloseReason_def)

lemma setCloseReasons_unset:
  "closeReason s = kMAX_REASON \<Longrightarrow>
   closeReason (setCloseReasons rs s) =
     (case find (\<lambda>r. r \<noteq> kMAX_REASON) rs of None \<Rightarrow> kMAX_REASON | Some r \<Rightarrow> r)"
proof (induction rs arbitrary: s)
  case Nil
  then show ?case by simp
next
  case (Cons r rs)
  show ?case
  proof (cases "r = kMAX_REASON")
    case True
    with Cons.prems have "setCloseReason r s = s"
      by (cases s) (simp add: setCloseReason_def)
    with Cons True show ?thesis by simp
  next
    case False
    with Cons.prems have "closeReason (setCloseReason r s) = r"
      by (simp add: setCloseReason_def)
    with False show ?thesis
      by (simp add: setCloseReasons_set)
  qed
qed

lemma setCloseReason_records:
  assumes "setCloseReason r s \<noteq> s"
  shows "closeReason s = kMAX_REASON" and "r \<noteq> kMAX_REASON"
    and "closeReason (setCloseReason r s) = r"
proof -
  show unset: "closeReason s = kMAX_REASON"
    using assms by (cases "closeReason s = kMAX_REASON") (simp_all add: setCloseReason_def)
  show "r \<noteq> kMAX_REASON"
  proof
    assume "r = kMAX_REASON"
    with unset have "setCloseReason r s = s"
      by (cases s) (simp add: setCloseReason_def)
    with assms show False by simp
  qed
  show "closeReason (setCloseReason r s) = r"
    using unset by (simp add: setCloseReason_def)
qed

text \<open>
  Claim C10. The close reason is written once. \<open>setCloseReason(r)\<close> stores \<open>r\<close> when
  \<open>closeReason_\<close> is still \<open>kMAX_REASON\<close> and changes nothing otherwise. So a call that
  records its reason (that changes the session) fixes what \<open>getConnectionCloseReason()\<close>
  reports, whatever the later calls; once \<open>closeReason_\<close> differs from \<open>kMAX_REASON\<close>
  no run of calls changes the report; and on a new session the reported reason after any
  run of calls is the first reason of the run that is not \<open>kMAX_REASON\<close> (a call that
  passes \<open>kMAX_REASON\<close> records nothing), or still \<open>kMAX_REASON\<close> if there is none.
\<close>

theorem setCloseReason_write_once:
  fixes s :: "'txn HTTPSession"
  shows
  "(closeReason s = kMAX_REASON \<longrightarrow>
      getConnectionCloseReason (setCloseReason r s) = r) \<and>
   (closeReason s \<noteq> kMAX_REASON \<longrightarrow> setCloseReason r s = s) \<and>
   (setCloseReason r s \<noteq> s \<longrightarrow>
      getConnectionCloseReason (setCloseReasons rs (setCloseReason r s)) = r) \<and>
   (closeReason s \<noteq> kMAX_REASON \<longrightarrow>
      getConnectionCloseReason (setCloseReasons rs s) = getConnectionCloseReason s) \<and>
   getConnectionCloseReason (setCloseReasons rs (newSession c :: 'txn HTTPSession)) =
     (case find (\<lambda>r. r \<noteq> kMAX_REASON) rs of None \<Rightarrow> kMAX_REASON | Some r \<Rightarrow> r)"
proof (intro conjI impI)
  assume "closeReason s = kMAX_REASON"
  then show "getConnectionCloseReason (setCloseReason r s) = r"
    by (simp add: setCloseReason_def getConnectionCloseReason_def)
next
  assume "closeReason s \<noteq> kMAX_REASON"
  then show "setCloseReason r s = s"
    by (simp add: setCloseReason_def)
next
  assume rec: "setCloseReason r s \<noteq> s"
  then have "closeReason (setCloseReason r s) \<noteq> kMAX_REASON"
    by (simp add: setCloseReason_records)
  then have "setCloseReasons rs (setCloseReason r s) = setCloseReason r s"
    by (rule setCloseReasons_set)
  with rec show "getConnectionCloseReason (setCloseReasons rs (setCloseReason r s)) = r"
    by (simp add: getConnectionCloseReason_def setCloseReason_records)
next
  assume "closeReason s \<noteq> kMAX_REASON"
  then show "getConnectionCloseReason (setCloseReasons rs s) = getConnectionCloseReason s"
    by (simp add: setCloseReasons_set)
next
  show "getConnectionCloseReason (setCloseReasons rs (newSession c :: 'txn HTTPSession)) =
     (case find (\<lambda>r. r \<noteq> kMAX_REASON) rs of None \<Rightarrow> kMAX_REASON | Some r \<Rightarrow> r)"
    by (simp add: getConnectionCloseReason_def setCloseReasons_unset newSession_def)
qed

theorem setCloseReason_write_once_witness:
  "closeReason (newSession (plainInit DOWNSTREAM) :: unit HTTPSession) = kMAX_REASON \<and>
   setCloseReason (Reason 3) (newSession (plainInit DOWNSTREAM) :: unit HTTPSession) \<noteq>
     newSession (plainInit DOWNSTREAM) \<and>
   getConnectionCloseReason
     (setCloseReason (Reason 3) (newSession (plainInit DOWNSTREAM) :: unit HTTPSession)) =
     Reason 3 \<and>
   closeReason (setCloseReason (Reason 3) (newSession (plainInit DOWNSTREAM) :: unit HTTPSession))
     \<noteq> kMAX_REASON \<and>
   getConnectionCloseReason
     (setCloseReasons [Reason 7, kMAX_REASON, Reason 1]
        (setCloseReason (Reason 3) (newSession (plainInit DOWNSTREAM) :: unit HTTPSession))) =
     Reason 3 \<and>
   getConnectionCloseReason
     (setCloseReasons [kMAX_REASON, Reason 3, Reason 7]
        (newSession (plainInit DOWNSTREAM) :: unit HTTPSession)) = Reason 3"
proof -
  let ?s0 = "newSession (plainInit DOWNSTREAM) :: unit HTTPSession"
  note inst = setCloseReason_write_once
    [of ?s0 "Reason 3" "[Reason 7, kMAX_REASON, Reason 1]" "plainInit DOWNSTREAM"]
  have unset: "closeReason ?s0 = kMAX_REASON"
    by (simp add: newSession_def)
  have first: "getConnectionCloseReason (setCloseReason (Reason 3) ?s0) = Reason 3"
    using inst unset by blast
  then have isset: "closeReason (setCloseReason (Reason 3) ?s0) \<noteq> kMAX_REASON"
    by (simp add: getConnectionCloseReason_def)
  with unset have changed: "setCloseReason (Reason 3) ?s0 \<noteq> ?s0"
    by auto
  have later: "getConnectionCloseReason
      (setCloseReasons [Reason 7, kMAX_REASON, Reason 1] (setCloseReason (Reason 3) ?s0)) =
      Reason 3"
    using inst changed by blast
  have run: "getConnectionCloseReason
      (setCloseReasons [kMAX_REASON, Reason 3, Reason 7] ?s0) = Reason 3"
    using setCloseReason_write_once
      [of ?s0 "Reason 3" "[kMAX_REASON, Reason 3, Reason 7]" "plainInit DOWNSTREAM"]
    by simp
  from unset changed first isset later run show ?thesis by blast
qed

section \<open>The snapshot of stream ids\<close>





















section \<open>The phase flags\<close>






















end
